theory Spec2Isabelle
  imports Main
begin

section \<open>External state, computations and outcomes\<close>

text \<open>
  The wrapped computations of the repository are zero-argument C++ callables that act on
  state outside the wrapper (\<^verbatim>\<open>std::cout\<close> in the demonstration programs, a counter in
  the specification's scenarios).  That state is the field \<open>world\<close>.  The field
  \<open>invocations\<close> is a ghost counter: it is bumped each time a caller-supplied callable is
  entered and is read by nothing in the program.
\<close>

record 'w env =
  world :: 'w
  invocations :: nat

text \<open>
  What a call can do: return a value, leave by an exception, end the program through
  \<^verbatim>\<open>std::terminate\<close> (an exception reaching a \<^verbatim>\<open>noexcept\<close> boundary), or have undefined
  behaviour (a write through a pointer to no object).
\<close>

datatype ('e, 'r) outcome = Returned 'r | Thrown 'e | Terminated | Undefined

text \<open>
  A caller-supplied callable: from the world to a result or an exception, and the new world.
  The callables of the demonstration programs capture by reference or capture nothing; a
  callable that updates its own by-copy captures is outside this type.
\<close>

type_synonym ('w, 'e, 'r) lambda = "'w \<Rightarrow> ('e + 'r) \<times> 'w"

definition invoke ::
  "('w, 'e, 'r) lambda \<Rightarrow> ('w, 'z) env_scheme \<Rightarrow> ('e, 'r) outcome \<times> ('w, 'z) env_scheme" where
  "invoke f st =
     (case f (world st) of
        (Inl e, w) \<Rightarrow> (Thrown e, st\<lparr>world := w, invocations := Suc (invocations st)\<rparr>)
      | (Inr v, w) \<Rightarrow> (Returned v, st\<lparr>world := w, invocations := Suc (invocations st)\<rparr>))"

text \<open>\<^verbatim>\<open>static_cast<T>(...)\<close> applied to the value a call returns; \<open>conv\<close> is the conversion.\<close>

fun static_cast :: "('a \<Rightarrow> 'b) \<Rightarrow> ('e, 'a) outcome \<Rightarrow> ('e, 'b) outcome" where
  "static_cast conv (Returned v) = Returned (conv v)"
| "static_cast conv (Thrown e) = Thrown e"
| "static_cast conv Terminated = Terminated"
| "static_cast conv Undefined = Undefined"

text \<open>After these two outcomes there is no program left to make a further call.\<close>

fun halted :: "('e, 'r) outcome \<Rightarrow> bool" where
  "halted Terminated = True"
| "halted Undefined = True"
| "halted (Returned v) = False"
| "halted (Thrown e) = False"

section \<open>The \<^verbatim>\<open>std::function\<close>-based Thunk (thunk.cc, lazy\_functionless.cc)\<close>

text \<open>
  The values a \<^verbatim>\<open>std::function<Result()>\<close> holds in thunk.cc:
  \<^item> \<open>User f\<close>: a callable written by the caller;
  \<^item> \<open>Ctor_closure this lambda\<close>: the closure \<^verbatim>\<open>[=, this]{ Result res = lambda(); d_lambda = [=]{ return res; }; return res; }\<close>
    built by the constructor; it holds a copy of \<open>lambda\<close> and the address \<open>this\<close> of the
    object under construction;
  \<^item> \<open>Const_closure res\<close>: the closure \<^verbatim>\<open>[=]{ return res; }\<close>;
  \<^item> \<open>Plus_closure lhs rhs\<close>: the closure \<^verbatim>\<open>[=]{ ... }\<close> of \<^verbatim>\<open>operator+\<close>, which
    captures both operands by copy.
  A Thunk has the single data member \<^verbatim>\<open>d_lambda\<close> and is represented by it: the store maps
  the address of each Thunk object to its \<^verbatim>\<open>d_lambda\<close>, and a Thunk captured by copy in a
  closure is the captured \<^verbatim>\<open>d_lambda\<close>.  The template parameters \<^verbatim>\<open>Lhs\<close>, \<^verbatim>\<open>Rhs\<close> and the
  result type of \<^verbatim>\<open>+\<close> are instantiated to one type \<open>'r\<close>.
\<close>

type_synonym addr = nat

datatype ('w, 'e, 'r) fn =
    User "('w, 'e, 'r) lambda"
  | Ctor_closure addr "('w, 'e, 'r) fn"
  | Const_closure 'r
  | Plus_closure "('w, 'e, 'r) fn" "('w, 'e, 'r) fn"

record ('w, 'e, 'r) store = "'w env" +
  heap :: "addr \<rightharpoonup> ('w, 'e, 'r) fn"

text \<open>
  \<^verbatim>\<open>std::function::operator()\<close> on each of the closures.  The assignment
  \<^verbatim>\<open>d_lambda = [=]{ return res; }\<close> inside the constructor's closure goes through the captured
  \<open>this\<close>; where no Thunk lives at that address the write is undefined behaviour.  When
  \<open>this\<close> is the object whose closure is running, the assignment replaces that closure; the
  closure reads only its local \<^verbatim>\<open>res\<close> afterwards.  An exception leaves \<^verbatim>\<open>lambda()\<close> before
  the assignment is reached.
\<close>

fun call ::
  "('w, 'e, 'r::plus) fn \<Rightarrow> ('w, 'e, 'r) store \<Rightarrow> ('e, 'r) outcome \<times> ('w, 'e, 'r) store" where
  "call (User f) st = invoke f st"
| "call (Ctor_closure this lambda) st =
     (case call lambda st of
        (Returned res, st') \<Rightarrow>
          (case heap st' this of
             None \<Rightarrow> (Undefined, st')
           | Some old \<Rightarrow> (Returned res, st'\<lparr>heap := (heap st')(this \<mapsto> Const_closure res)\<rparr>))
      | (Thrown e, st') \<Rightarrow> (Thrown e, st')
      | (Terminated, st') \<Rightarrow> (Terminated, st')
      | (Undefined, st') \<Rightarrow> (Undefined, st'))"
| "call (Const_closure res) st = (Returned res, st)"
| "call (Plus_closure lhs rhs) st =
     (case call lhs st of
        (Returned tmp_lhs, st1) \<Rightarrow>
          (case call rhs st1 of
             (Returned tmp_rhs, st2) \<Rightarrow> (Returned (tmp_lhs + tmp_rhs), st2)
           | (Thrown e, st2) \<Rightarrow> (Thrown e, st2)
           | (Terminated, st2) \<Rightarrow> (Terminated, st2)
           | (Undefined, st2) \<Rightarrow> (Undefined, st2))
      | (Thrown e, st1) \<Rightarrow> (Thrown e, st1)
      | (Terminated, st1) \<Rightarrow> (Terminated, st1)
      | (Undefined, st1) \<Rightarrow> (Undefined, st1))"

text \<open>\<^verbatim>\<open>Thunk(std::function<Result()> lambda)\<close>, run for the object at address \<open>this\<close>.\<close>

definition Thunk_ctor ::
  "addr \<Rightarrow> ('w, 'e, 'r) fn \<Rightarrow> ('w, 'e, 'r) store \<Rightarrow> ('w, 'e, 'r) store" where
  "Thunk_ctor this lambda st = st\<lparr>heap := (heap st)(this \<mapsto> Ctor_closure this lambda)\<rparr>"

text \<open>
  \<^verbatim>\<open>Thunk(const Thunk &) = default\<close>: the new object at \<open>this\<close> receives a copy of the
  \<^verbatim>\<open>d_lambda\<close> of \<open>other\<close>, the captured address included.
\<close>

definition Thunk_copy_ctor ::
  "addr \<Rightarrow> addr \<Rightarrow> ('w, 'e, 'r) store \<Rightarrow> ('w, 'e, 'r) store" where
  "Thunk_copy_ctor this other st =
     (case heap st other of
        None \<Rightarrow> st
      | Some d_lambda \<Rightarrow> st\<lparr>heap := (heap st)(this \<mapsto> d_lambda)\<rparr>)"

text \<open>
  The implicit destructor: the lifetime of the Thunk at \<open>this\<close> ends (a temporary at the end
  of its full-expression, a variable at the end of its scope) and no object is left there.
\<close>

definition Thunk_dtor :: "addr \<Rightarrow> ('w, 'e, 'r) store \<Rightarrow> ('w, 'e, 'r) store" where
  "Thunk_dtor this st = st\<lparr>heap := (heap st)(this := None)\<rparr>"

text \<open>\<^verbatim>\<open>operator Result() const { return d_lambda(); }\<close>\<close>

definition Thunk_operator_Result ::
  "addr \<Rightarrow> ('w, 'e, 'r::plus) store \<Rightarrow> ('e, 'r) outcome \<times> ('w, 'e, 'r) store" where
  "Thunk_operator_Result this st =
     (case heap st this of
        None \<Rightarrow> (Undefined, st)
      | Some d_lambda \<Rightarrow> call d_lambda st)"

text \<open>\<^verbatim>\<open>template<typename T> operator T() const { return static_cast<T>(d_lambda()); }\<close>\<close>

definition Thunk_operator_T ::
  "('r \<Rightarrow> 't) \<Rightarrow> addr \<Rightarrow> ('w, 'e, 'r::plus) store \<Rightarrow> ('e, 't) outcome \<times> ('w, 'e, 'r) store" where
  "Thunk_operator_T conv this st =
     (case heap st this of
        None \<Rightarrow> (Undefined, st)
      | Some d_lambda \<Rightarrow> (case call d_lambda st of (out, st') \<Rightarrow> (static_cast conv out, st')))"

text \<open>
  \<^verbatim>\<open>make_thunk(F lambda)\<close> returns the prvalue \<^verbatim>\<open>Thunk<...>{lambda}\<close>; the object is
  constructed in place at the address \<open>this\<close> of the variable or temporary it initialises.
\<close>

definition make_thunk ::
  "addr \<Rightarrow> ('w, 'e, 'r) fn \<Rightarrow> ('w, 'e, 'r) store \<Rightarrow> ('w, 'e, 'r) store" where
  "make_thunk this lambda st = Thunk_ctor this lambda st"

text \<open>
  \<^verbatim>\<open>operator+(Thunk<Lhs> const &lhs, Thunk<Rhs> const &rhs)\<close>: the closure captures copies
  of the two operands as they are now; the result is constructed at \<open>this\<close>.
\<close>

definition Thunk_operator_plus ::
  "addr \<Rightarrow> addr \<Rightarrow> addr \<Rightarrow> ('w, 'e, 'r) store \<Rightarrow> ('w, 'e, 'r) store" where
  "Thunk_operator_plus this lhs rhs st =
     (case heap st lhs of
        None \<Rightarrow> st
      | Some l \<Rightarrow>
          (case heap st rhs of
             None \<Rightarrow> st
           | Some r \<Rightarrow> make_thunk this (Plus_closure l r) st))"

text \<open>A caller that converts the Thunk at \<open>this\<close> to \<^verbatim>\<open>Result\<close> \<open>n\<close> times, catching exceptions.\<close>

fun Thunk_observes ::
  "nat \<Rightarrow> addr \<Rightarrow> ('w, 'e, 'r::plus) store \<Rightarrow> ('e, 'r) outcome list \<times> ('w, 'e, 'r) store" where
  "Thunk_observes 0 this st = ([], st)"
| "Thunk_observes (Suc n) this st =
     (case Thunk_operator_Result this st of
        (out, st') \<Rightarrow>
          if halted out then ([out], st')
          else (case Thunk_observes n this st' of (outs, st'') \<Rightarrow> (out # outs, st'')))"

section \<open>The \<^verbatim>\<open>std::variant\<close>-based Thunk (thunk\_lambda.cc)\<close>

text \<open>\<^verbatim>\<open>std::variant<Lambda, Result> d_thunk\<close>; the Thunk is represented by this member.\<close>

datatype ('l, 'r) variant = Lambda 'l | Result 'r

text \<open>\<^verbatim>\<open>constexpr Thunk(Lambda const &lambda) noexcept : d_thunk{lambda} {}\<close>\<close>

definition VThunk_ctor :: "('w, 'e, 'r) lambda \<Rightarrow> (('w, 'e, 'r) lambda, 'r) variant" where
  "VThunk_ctor lambda = Lambda lambda"

text \<open>\<^verbatim>\<open>Thunk(const Thunk&) = default\<close>: the variant is copied.\<close>

definition VThunk_copy_ctor ::
  "(('w, 'e, 'r) lambda, 'r) variant \<Rightarrow> (('w, 'e, 'r) lambda, 'r) variant" where
  "VThunk_copy_ctor other = other"

text \<open>
  \<^verbatim>\<open>constexpr Result visit() noexcept(noexcept(std::declval<Lambda>()))\<close>.  The operand of
  the inner \<^verbatim>\<open>noexcept\<close> is the expression \<^verbatim>\<open>std::declval<Lambda>()\<close>, not a call of the
  lambda; \<^verbatim>\<open>std::declval\<close> is declared \<^verbatim>\<open>noexcept\<close>, so the specifier is \<^verbatim>\<open>noexcept(true)\<close>
  for every \<^verbatim>\<open>Lambda\<close>, and an exception leaving \<^verbatim>\<open>arg()\<close> ends in \<^verbatim>\<open>std::terminate\<close>.
\<close>

definition visit ::
  "(('w, 'e, 'r) lambda, 'r) variant \<Rightarrow> ('w, 'z) env_scheme \<Rightarrow>
     ('e, 'r) outcome \<times> (('w, 'e, 'r) lambda, 'r) variant \<times> ('w, 'z) env_scheme" where
  "visit d_thunk st =
     (case d_thunk of
        Result arg \<Rightarrow> (Returned arg, d_thunk, st)
      | Lambda arg \<Rightarrow>
          (case invoke arg st of
             (Returned res, st') \<Rightarrow> (Returned res, Result res, st')
           | (Thrown e, st') \<Rightarrow> (Terminated, d_thunk, st')
           | (Terminated, st') \<Rightarrow> (Terminated, d_thunk, st')
           | (Undefined, st') \<Rightarrow> (Undefined, d_thunk, st')))"

text \<open>\<^verbatim>\<open>operator Result() const noexcept(...) { return (const_cast<Thunk*>(this))->visit(); }\<close>\<close>

definition VThunk_operator_Result ::
  "(('w, 'e, 'r) lambda, 'r) variant \<Rightarrow> ('w, 'z) env_scheme \<Rightarrow>
     ('e, 'r) outcome \<times> (('w, 'e, 'r) lambda, 'r) variant \<times> ('w, 'z) env_scheme" where
  "VThunk_operator_Result d_thunk st = visit d_thunk st"


text \<open>A caller that converts one variant-based Thunk to \<^verbatim>\<open>Result\<close> \<open>n\<close> times.\<close>

fun VThunk_observes ::
  "nat \<Rightarrow> (('w, 'e, 'r) lambda, 'r) variant \<Rightarrow> ('w, 'z) env_scheme \<Rightarrow>
     ('e, 'r) outcome list \<times> (('w, 'e, 'r) lambda, 'r) variant \<times> ('w, 'z) env_scheme" where
  "VThunk_observes 0 d_thunk st = ([], d_thunk, st)"
| "VThunk_observes (Suc n) d_thunk st =
     (case VThunk_operator_Result d_thunk st of
        (out, d_thunk', st') \<Rightarrow>
          if halted out then ([out], d_thunk', st')
          else (case VThunk_observes n d_thunk' st' of
                  (outs, d_thunk'', st'') \<Rightarrow> (out # outs, d_thunk'', st'')))"

section \<open>The recomputing wrapper Lazy (lazy.cc, lazy\_functionless.cc)\<close>

text \<open>
  The closures a Lazy holds: a callable written by the caller, or the closure
  \<^verbatim>\<open>[=]{ return (lhs.operator Lhs()) + (rhs.operator Rhs()); }\<close> of \<^verbatim>\<open>operator+\<close>, which
  captures both operands by copy.  A Lazy has the single data member \<^verbatim>\<open>d_lambda\<close> and is
  represented by it.  lazy.cc erases the closure type with \<^verbatim>\<open>std::function\<close>,
  lazy\_functionless.cc keeps it as the template parameter \<^verbatim>\<open>Lambda\<close>; the closures are the
  same.
\<close>

datatype ('w, 'e, 'r) lazy_fn =
    Lazy_user "('w, 'e, 'r) lambda"
  | Lazy_plus "('w, 'e, 'r) lazy_fn" "('w, 'e, 'r) lazy_fn"

text \<open>
  The two conversions in \<^verbatim>\<open>(lhs.operator Lhs()) + (rhs.operator Rhs())\<close> are operands of one
  \<^verbatim>\<open>+\<close>.  C++ does not sequence the operands of \<^verbatim>\<open>+\<close>: which call runs first is the
  implementation's choice, taken here as the parameter \<open>ord\<close>.
\<close>

datatype order = Left_first | Right_first

fun lazy_call ::
  "order \<Rightarrow> ('w, 'e, 'r::plus) lazy_fn \<Rightarrow> ('w, 'z) env_scheme \<Rightarrow>
     ('e, 'r) outcome \<times> ('w, 'z) env_scheme" where
  "lazy_call ord (Lazy_user f) st = invoke f st"
| "lazy_call ord (Lazy_plus lhs rhs) st =
     (case ord of
        Left_first \<Rightarrow>
          (case lazy_call ord lhs st of
             (Returned l, st1) \<Rightarrow>
               (case lazy_call ord rhs st1 of
                  (Returned r, st2) \<Rightarrow> (Returned (l + r), st2)
                | (Thrown e, st2) \<Rightarrow> (Thrown e, st2)
                | (Terminated, st2) \<Rightarrow> (Terminated, st2)
                | (Undefined, st2) \<Rightarrow> (Undefined, st2))
           | (Thrown e, st1) \<Rightarrow> (Thrown e, st1)
           | (Terminated, st1) \<Rightarrow> (Terminated, st1)
           | (Undefined, st1) \<Rightarrow> (Undefined, st1))
      | Right_first \<Rightarrow>
          (case lazy_call ord rhs st of
             (Returned r, st1) \<Rightarrow>
               (case lazy_call ord lhs st1 of
                  (Returned l, st2) \<Rightarrow> (Returned (l + r), st2)
                | (Thrown e, st2) \<Rightarrow> (Thrown e, st2)
                | (Terminated, st2) \<Rightarrow> (Terminated, st2)
                | (Undefined, st2) \<Rightarrow> (Undefined, st2))
           | (Thrown e, st1) \<Rightarrow> (Thrown e, st1)
           | (Terminated, st1) \<Rightarrow> (Terminated, st1)
           | (Undefined, st1) \<Rightarrow> (Undefined, st1)))"

text \<open>\<^verbatim>\<open>constexpr Lazy(std::function<Result()> lambda) : d_lambda(lambda) {}\<close>\<close>

definition Lazy_ctor :: "('w, 'e, 'r) lazy_fn \<Rightarrow> ('w, 'e, 'r) lazy_fn" where
  "Lazy_ctor lambda = lambda"

text \<open>\<^verbatim>\<open>constexpr operator Result() const { return d_lambda(); }\<close>\<close>

definition Lazy_operator_Result ::
  "order \<Rightarrow> ('w, 'e, 'r::plus) lazy_fn \<Rightarrow> ('w, 'z) env_scheme \<Rightarrow>
     ('e, 'r) outcome \<times> ('w, 'z) env_scheme" where
  "Lazy_operator_Result ord d_lambda st = lazy_call ord d_lambda st"

text \<open>\<^verbatim>\<open>template<typename T> constexpr operator T() const { return static_cast<T>(d_lambda()); }\<close>\<close>

definition Lazy_operator_T ::
  "order \<Rightarrow> ('r \<Rightarrow> 't) \<Rightarrow> ('w, 'e, 'r::plus) lazy_fn \<Rightarrow> ('w, 'z) env_scheme \<Rightarrow>
     ('e, 't) outcome \<times> ('w, 'z) env_scheme" where
  "Lazy_operator_T ord conv d_lambda st =
     (case lazy_call ord d_lambda st of (out, st') \<Rightarrow> (static_cast conv out, st'))"

text \<open>\<^verbatim>\<open>make_lazy(F lambda)\<close> returns \<^verbatim>\<open>Lazy<...>{lambda}\<close>.\<close>

definition make_lazy :: "('w, 'e, 'r) lazy_fn \<Rightarrow> ('w, 'e, 'r) lazy_fn" where
  "make_lazy lambda = Lazy_ctor lambda"

text \<open>\<^verbatim>\<open>operator+(Lazy<Lhs> const &lhs, Lazy<Rhs> const &rhs)\<close>\<close>

definition Lazy_operator_plus ::
  "('w, 'e, 'r) lazy_fn \<Rightarrow> ('w, 'e, 'r) lazy_fn \<Rightarrow> ('w, 'e, 'r) lazy_fn" where
  "Lazy_operator_plus lhs rhs = make_lazy (Lazy_plus lhs rhs)"

text \<open>
  lazy\_functionless.cc: \<^verbatim>\<open>Lazy<Lambda, Result>\<close> lets \<^verbatim>\<open>Result\<close> differ from the type the
  lambda returns; \<open>to_result\<close> is the conversion between the two (the identity for the
  default \<^verbatim>\<open>Result\<close>).  \<^verbatim>\<open>operator Result()\<close> is \<^verbatim>\<open>return d_lambda();\<close> and
  \<^verbatim>\<open>operator T()\<close> is \<^verbatim>\<open>return static_cast<T>(static_cast<Result>(d_lambda()));\<close>.
\<close>

definition LazyF_operator_Result ::
  "order \<Rightarrow> ('a \<Rightarrow> 'r) \<Rightarrow> ('w, 'e, 'a::plus) lazy_fn \<Rightarrow> ('w, 'z) env_scheme \<Rightarrow>
     ('e, 'r) outcome \<times> ('w, 'z) env_scheme" where
  "LazyF_operator_Result ord to_result d_lambda st =
     (case lazy_call ord d_lambda st of (out, st') \<Rightarrow> (static_cast to_result out, st'))"

definition LazyF_operator_T ::
  "order \<Rightarrow> ('a \<Rightarrow> 'r) \<Rightarrow> ('r \<Rightarrow> 't) \<Rightarrow> ('w, 'e, 'a::plus) lazy_fn \<Rightarrow> ('w, 'z) env_scheme \<Rightarrow>
     ('e, 't) outcome \<times> ('w, 'z) env_scheme" where
  "LazyF_operator_T ord to_result conv d_lambda st =
     (case lazy_call ord d_lambda st of
        (out, st') \<Rightarrow> (static_cast conv (static_cast to_result out), st'))"

text \<open>A caller that converts one Lazy to \<^verbatim>\<open>Result\<close> \<open>n\<close> times, catching exceptions.\<close>

fun Lazy_observes ::
  "order \<Rightarrow> nat \<Rightarrow> ('w, 'e, 'r::plus) lazy_fn \<Rightarrow> ('w, 'z) env_scheme \<Rightarrow>
     ('e, 'r) outcome list \<times> ('w, 'z) env_scheme" where
  "Lazy_observes ord 0 d_lambda st = ([], st)"
| "Lazy_observes ord (Suc n) d_lambda st =
     (case Lazy_operator_Result ord d_lambda st of
        (out, st') \<Rightarrow>
          if halted out then ([out], st')
          else (case Lazy_observes ord n d_lambda st' of (outs, st'') \<Rightarrow> (out # outs, st'')))"

section \<open>Computations used in the scenarios\<close>

text \<open>The specification's \<^verbatim>\<open>{ calls++; return 42; }\<close>: the world is the counter.\<close>

definition counting :: "int \<Rightarrow> (nat, string, int) lambda" where
  "counting v calls = (Inr v, Suc calls)"

text \<open>A computation whose result depends on the world: it returns the number of earlier calls.\<close>

definition ticket :: "(nat, string, int) lambda" where
  "ticket calls = (Inr (int calls), Suc calls)"

text \<open>A computation that raises on its first \<open>k\<close> calls and returns \<open>v\<close> from then on.\<close>

definition flaky :: "nat \<Rightarrow> int \<Rightarrow> (nat, string, int) lambda" where
  "flaky k v calls = (if calls < k then Inl ''failure'' else Inr v, Suc calls)"

text \<open>
  thunk.cc's \<^verbatim>\<open>thunk { std::cout << "Evaluated 42! "; return 42; }\<close>: the world is the list
  of strings written so far.
\<close>

definition printing :: "string \<Rightarrow> int \<Rightarrow> (string list, string, int) lambda" where
  "printing msg v out = (Inr v, out @ [msg])"

text \<open>The state before anything is constructed.\<close>

definition initial_env :: "'w \<Rightarrow> 'w env" where
  "initial_env w = \<lparr>world = w, invocations = 0\<rparr>"

definition initial_store :: "'w \<Rightarrow> ('w, 'e, 'r) store" where
  "initial_store w = \<lparr>world = w, invocations = 0, heap = Map.empty\<rparr>"

text \<open>thunk.cc's \<^verbatim>\<open>thunk { return 69; }\<close>: a computation without effect.\<close>

definition returning :: "int \<Rightarrow> (string list, string, int) lambda" where
  "returning v out = (Inr v, out)"

text \<open>A computation that writes \<open>msg\<close> and then raises it.\<close>

definition failing :: "string \<Rightarrow> (string list, string, int) lambda" where
  "failing msg out = (Inl msg, out @ [msg])"

section \<open>Callers\<close>

text \<open>
  A caller of thunk.cc in the style of its \<^verbatim>\<open>main\<close>: a straight-line sequence of
  declarations \<^verbatim>\<open>auto x = make_thunk(f);\<close>, \<^verbatim>\<open>Thunk<R> y = x;\<close>, \<^verbatim>\<open>auto z = x + y;\<close> and
  conversions to \<^verbatim>\<open>Result\<close>, each object named by its address.  \<open>Destroy\<close> marks the end
  of an object's lifetime, for a temporary the end of the full-expression that created it.
  The outcomes of the conversions are collected; exceptions are caught by the caller.
\<close>

datatype ('w, 'e, 'r) statement =
    Construct addr "('w, 'e, 'r) fn"
  | Copy addr addr
  | Add addr addr addr
  | Destroy addr
  | Observe addr

fun run ::
  "('w, 'e, 'r::plus) statement list \<Rightarrow> ('w, 'e, 'r) store \<Rightarrow>
     ('e, 'r) outcome list \<times> ('w, 'e, 'r) store" where
  "run [] st = ([], st)"
| "run (Construct this lambda # ss) st = run ss (make_thunk this lambda st)"
| "run (Copy this other # ss) st = run ss (Thunk_copy_ctor this other st)"
| "run (Add this lhs rhs # ss) st = run ss (Thunk_operator_plus this lhs rhs st)"
| "run (Destroy this # ss) st = run ss (Thunk_dtor this st)"
| "run (Observe this # ss) st =
     (case Thunk_operator_Result this st of
        (out, st') \<Rightarrow>
          if halted out then ([out], st')
          else (case run ss st' of (outs, st'') \<Rightarrow> (out # outs, st'')))"

section \<open>Single evaluation\<close>

lemma invoke_Inr:
  "f (world st) = (Inr v, w) \<Longrightarrow>
   invoke f st = (Returned v, st\<lparr>world := w, invocations := Suc (invocations st)\<rparr>)"
  by (simp add: invoke_def)

lemma invoke_Inl:
  "f (world st) = (Inl e, w) \<Longrightarrow>
   invoke f st = (Thrown e, st\<lparr>world := w, invocations := Suc (invocations st)\<rparr>)"
  by (simp add: invoke_def)

lemma Thunk_observes_cached:
  "heap st this = Some (Const_closure v) \<Longrightarrow>
   Thunk_observes n this st = (replicate n (Returned v), st)"
  by (induction n) (simp_all add: Thunk_operator_Result_def)

lemma Thunk_successful_observation:
  "heap st this = Some (Ctor_closure this (User f)) \<Longrightarrow> f (world st) = (Inr v, w) \<Longrightarrow>
   Thunk_operator_Result this st =
     (Returned v, st\<lparr>world := w, invocations := Suc (invocations st),
                      heap := (heap st)(this \<mapsto> Const_closure v)\<rparr>)"
  by (simp add: Thunk_operator_Result_def invoke_def)

lemma Thunk_failed_observation:
  "heap st this = Some (Ctor_closure this (User f)) \<Longrightarrow> f (world st) = (Inl e, w) \<Longrightarrow>
   Thunk_operator_Result this st =
     (Thrown e, st\<lparr>world := w, invocations := Suc (invocations st)\<rparr>)"
  by (simp add: Thunk_operator_Result_def invoke_def)

lemma Thunk_first_observation:
  "f (world st) = (Inr v, w) \<Longrightarrow>
   Thunk_operator_Result this (Thunk_ctor this (User f) st) =
     (Returned v, st\<lparr>world := w, invocations := Suc (invocations st),
                      heap := (heap st)(this \<mapsto> Const_closure v)\<rparr>)"
  by (simp add: Thunk_operator_Result_def Thunk_ctor_def invoke_def)

lemma VThunk_observes_cached:
  "VThunk_observes n (Result v) st = (replicate n (Returned v), Result v, st)"
  by (induction n) (simp_all add: VThunk_operator_Result_def visit_def)



section \<open>Failure of the computation\<close>

text \<open>
  In thunk.cc an exception leaves \<^verbatim>\<open>lambda()\<close> before \<^verbatim>\<open>d_lambda\<close> is assigned: the caller
  receives it, the closure stays in place, and the next conversion runs the computation
  again.  With a computation that raises on its first \<open>k\<close> calls, the first \<open>k\<close> conversions
  raise, conversion \<open>k + 1\<close> returns and caches, and the later ones return the cached value.
\<close>

lemma Thunk_retry_from:
  "heap st this = Some (Ctor_closure this (User (flaky k v))) \<Longrightarrow> world st + j = k \<Longrightarrow>
   Thunk_observes (j + Suc m) this st =
     (replicate j (Thrown ''failure'') @ replicate (Suc m) (Returned v),
      st\<lparr>world := Suc k, invocations := invocations st + Suc j,
         heap := (heap st)(this \<mapsto> Const_closure v)\<rparr>)"
proof (induction j arbitrary: st)
  case 0
  then have f: "flaky k v (world st) = (Inr v, Suc k)" by (simp add: flaky_def)
  let ?st' = "st\<lparr>world := Suc k, invocations := Suc (invocations st),
                 heap := (heap st)(this \<mapsto> Const_closure v)\<rparr>"
  have first: "Thunk_operator_Result this st = (Returned v, ?st')"
    using "0.prems"(1) f by (rule Thunk_successful_observation)
  have rest: "Thunk_observes m this ?st' = (replicate m (Returned v), ?st')"
    by (rule Thunk_observes_cached) simp
  have all: "Thunk_observes (Suc m) this st = (replicate (Suc m) (Returned v), ?st')"
    by (simp add: first rest)
  have eq: "st\<lparr>world := Suc k, invocations := invocations st + Suc 0,
              heap := (heap st)(this \<mapsto> Const_closure v)\<rparr> = ?st'"
    by simp
  show ?case unfolding eq using all by simp
next
  case (Suc j)
  then have f: "flaky k v (world st) = (Inl ''failure'', Suc (world st))"
    by (auto simp add: flaky_def)
  let ?st' = "st\<lparr>world := Suc (world st), invocations := Suc (invocations st)\<rparr>"
  have first: "Thunk_operator_Result this st = (Thrown ''failure'', ?st')"
    using Suc.prems(1) f by (rule Thunk_failed_observation)
  have rest: "Thunk_observes (j + Suc m) this ?st' =
     (replicate j (Thrown ''failure'') @ replicate (Suc m) (Returned v),
      ?st'\<lparr>world := Suc k, invocations := invocations ?st' + Suc j,
         heap := (heap ?st')(this \<mapsto> Const_closure v)\<rparr>)"
    using Suc.prems by (intro Suc.IH) simp_all
  show ?case
    by (simp add: first) (simp add: rest [simplified] fun_upd_def)
qed

lemma Thunk_retry_on_failure:
  "Thunk_observes (k + Suc m) this (Thunk_ctor this (User (flaky k v)) (initial_store 0)) =
     (replicate k (Thrown ''failure'') @ replicate (Suc m) (Returned v),
      \<lparr>world = Suc k, invocations = Suc k, heap = [this \<mapsto> Const_closure v]\<rparr>)"
  using Thunk_retry_from [of "Thunk_ctor this (User (flaky k v)) (initial_store 0)" this k v k m]
  by (simp add: Thunk_ctor_def initial_store_def)

text \<open>
  C2.  The claim: a failing computation's exception reaches the caller of every
  MemoizedValue, the slot stays pending, and a later observation retries.  thunk.cc does
  so (\<open>Thunk_retry_on_failure\<close>).  In thunk\_lambda.cc \<^verbatim>\<open>visit()\<close> and
  \<^verbatim>\<open>operator Result()\<close> are \<^verbatim>\<open>noexcept(true)\<close>: with a computation that raises on its first
  call only, the first conversion ends the program, so there is no failure for the caller to
  see and no second conversion.
\<close>

theorem visit_exception_terminates:
  "VThunk_observes 2 (VThunk_ctor (flaky 1 42)) (initial_env 0) =
     ([Terminated], Lambda (flaky 1 42), \<lparr>world = 1, invocations = 1\<rparr>)"
  by (simp add: VThunk_ctor_def VThunk_operator_Result_def visit_def invoke_def flaky_def
        initial_env_def numeral_2_eq_2)

section \<open>Copies\<close>

lemmas scenario_simps =
  make_thunk_def Thunk_ctor_def Thunk_copy_ctor_def Thunk_operator_plus_def
  Thunk_operator_Result_def invoke_def initial_store_def

text \<open>
  The demonstration of thunk.cc, with the writes of \<^verbatim>\<open>operator<<\<close> left out: \<^verbatim>\<open>sum\<close>
  (address 2) is built while \<^verbatim>\<open>fourtytwo\<close> (address 0) is pending, two temporaries
  \<^verbatim>\<open>(fourtytwo + sixtynine)\<close> (addresses 3 and 4) are built and converted, then \<^verbatim>\<open>sum\<close>
  is converted.  \<^verbatim>\<open>sum\<close> holds copies of the pending operands, so its conversion runs both
  computations again: the text is written twice.
\<close>

lemma thunk_cc_main:
  "run [Construct 0 (User (printing ''Evaluated 42! '' 42)),
        Construct 1 (User (returning 69)),
        Add 2 0 1,
        Add 3 0 1, Observe 3,
        Add 4 0 1, Observe 4,
        Observe 2] (initial_store []) =
     ([Returned 111, Returned 111, Returned 111],
      \<lparr>world = [''Evaluated 42! '', ''Evaluated 42! ''], invocations = 4,
       heap = [0 \<mapsto> Const_closure 42, 1 \<mapsto> Const_closure 69, 2 \<mapsto> Const_closure 111,
               3 \<mapsto> Const_closure 111, 4 \<mapsto> Const_closure 111]\<rparr>)"
  by (simp add: scenario_simps printing_def returning_def) (rule ext, simp)

text \<open>
  A copy of the variant-based Thunk is a variant of its own: two conversions of a copy run the
  computation once and cache in the copy.
\<close>

lemma VThunk_copy_memoizes:
  "VThunk_observes 2 (VThunk_copy_ctor (VThunk_ctor (counting 42))) (initial_env 0) =
     ([Returned 42, Returned 42], Result 42, \<lparr>world = 1, invocations = 1\<rparr>)"
  by (simp add: VThunk_copy_ctor_def VThunk_ctor_def VThunk_operator_Result_def visit_def
        invoke_def counting_def initial_env_def numeral_2_eq_2)

text \<open>
  C3.  The claim: a copy of a pending MemoizedValue memoizes on its own, and observing a
  copy never changes the original.  thunk\_lambda.cc copies the variant, and each copy is a
  value of its own.  In thunk.cc the copied closure keeps the \<open>this\<close> of the original: two
  conversions of the copy at address 1 run the computation twice, leave the copy pending and
  put the result in the original at address 0.
\<close>

theorem copy_does_not_memoize:
  "run [Construct 0 (User (counting 42)), Copy 1 0, Observe 1, Observe 1] (initial_store 0) =
     ([Returned 42, Returned 42],
      \<lparr>world = 2, invocations = 2,
       heap = [0 \<mapsto> Const_closure 42, 1 \<mapsto> Ctor_closure 0 (User (counting 42))]\<rparr>)"
  by (simp add: scenario_simps counting_def) (rule ext, simp)

section \<open>Combination\<close>

lemma heap_invoke [simp]: "heap (snd (invoke f st)) = heap st"
  by (simp add: invoke_def split: prod.split sum.split)

lemma call_keeps_objects:
  "heap st a \<noteq> None \<Longrightarrow> heap (snd (call d st)) a \<noteq> None"
proof (induction d arbitrary: st)
  case (User f)
  then show ?case by simp
next
  case (Ctor_closure this lambda)
  from Ctor_closure.IH [OF Ctor_closure.prems] show ?case
    by (auto split: prod.split outcome.split option.split)
next
  case (Const_closure res)
  then show ?case by simp
next
  case (Plus_closure lhs rhs)
  have l: "heap (snd (call lhs st)) a \<noteq> None"
    by (rule Plus_closure.IH(1) [OF Plus_closure.prems])
  show ?case
  proof (cases "call lhs st")
    case (Pair out st1)
    with l have "heap st1 a \<noteq> None" by simp
    then have "heap (snd (call rhs st1)) a \<noteq> None" by (rule Plus_closure.IH(2))
    with Pair \<open>heap st1 a \<noteq> None\<close> show ?thesis
      by (auto split: prod.split outcome.split)
  qed
qed

lemma Thunk_operator_plus_eq:
  "heap st lhs = Some l \<Longrightarrow> heap st rhs = Some r \<Longrightarrow>
   Thunk_operator_plus this lhs rhs st =
     st\<lparr>heap := (heap st)(this \<mapsto> Ctor_closure this (Plus_closure l r))\<rparr>"
  by (simp add: Thunk_operator_plus_def make_thunk_def Thunk_ctor_def)

lemma Thunk_operator_plus_env:
  "world (Thunk_operator_plus this lhs rhs st) = world st"
  "invocations (Thunk_operator_plus this lhs rhs st) = invocations st"
  by (simp_all add: Thunk_operator_plus_def make_thunk_def Thunk_ctor_def split: option.split)

lemma Thunk_combination_observed:
  assumes ops: "heap st lhs = Some l" "heap st rhs = Some r"
      and fresh: "this \<noteq> lhs" "this \<noteq> rhs"
      and L: "Thunk_operator_Result lhs (Thunk_operator_plus this lhs rhs st) = (Returned a, st1)"
      and untouched: "heap st1 rhs = Some r"
      and R: "Thunk_operator_Result rhs st1 = (Returned b, st2)"
  shows "Thunk_operator_Result this (Thunk_operator_plus this lhs rhs st) =
           (Returned (a + b), st2\<lparr>heap := (heap st2)(this \<mapsto> Const_closure (a + b))\<rparr>)"
proof -
  let ?st' = "Thunk_operator_plus this lhs rhs st"
  have st': "?st' = st\<lparr>heap := (heap st)(this \<mapsto> Ctor_closure this (Plus_closure l r))\<rparr>"
    using ops by (rule Thunk_operator_plus_eq)
  have here: "heap ?st' this = Some (Ctor_closure this (Plus_closure l r))"
    by (simp add: st')
  have "heap ?st' lhs = Some l" using ops(1) fresh(1) by (simp add: st')
  with L have cl: "call l ?st' = (Returned a, st1)"
    by (simp add: Thunk_operator_Result_def)
  from R untouched have cr: "call r st1 = (Returned b, st2)"
    by (simp add: Thunk_operator_Result_def)
  have "heap ?st' this \<noteq> None" using here by simp
  then have "heap (snd (call l ?st')) this \<noteq> None" by (rule call_keeps_objects)
  then have "heap st1 this \<noteq> None" by (simp add: cl)
  then have "heap (snd (call r st1)) this \<noteq> None" by (rule call_keeps_objects)
  then obtain old where old: "heap st2 this = Some old" by (auto simp add: cr)
  have "call (Ctor_closure this (Plus_closure l r)) ?st' =
          (Returned (a + b), st2\<lparr>heap := (heap st2)(this \<mapsto> Const_closure (a + b))\<rparr>)"
    by (simp add: cl cr old)
  with here show ?thesis
    by (simp add: Thunk_operator_Result_def)
qed

lemma Lazy_plus_left_first:
  "Lazy_operator_Result Left_first x e = (Returned a, e1) \<Longrightarrow>
   Lazy_operator_Result Left_first y e1 = (Returned b, e2) \<Longrightarrow>
   Lazy_operator_Result Left_first (Lazy_operator_plus x y) e = (Returned (a + b), e2)"
  by (simp add: Lazy_operator_Result_def Lazy_operator_plus_def make_lazy_def Lazy_ctor_def)

lemma Lazy_plus_right_first:
  "Lazy_operator_Result Right_first y e = (Returned b, e1) \<Longrightarrow>
   Lazy_operator_Result Right_first x e1 = (Returned a, e2) \<Longrightarrow>
   Lazy_operator_Result Right_first (Lazy_operator_plus x y) e = (Returned (a + b), e2)"
  by (simp add: Lazy_operator_Result_def Lazy_operator_plus_def make_lazy_def Lazy_ctor_def)

text \<open>
  What \<^verbatim>\<open>operator+\<close> does for operands that stay apart.  On two Thunks \<open>lhs\<close> and \<open>rhs\<close> it
  builds a new Thunk at \<open>this\<close>; building it leaves the world, the invocation counter and
  both operands as they were.  Converting the new Thunk right after gives \<open>a + b\<close>, where
  \<open>a\<close> is what converting \<open>lhs\<close> gives and \<open>b\<close> what converting \<open>rhs\<close> gives in the state the
  first conversion left, provided the conversion of \<open>lhs\<close> does not touch \<open>rhs\<close>; the sum is
  then cached in the new Thunk and returned by every later conversion without a further
  call.  \<^verbatim>\<open>operator+\<close> on two Lazy values is a function of the two values alone (it has no
  access to the world) and its conversion gives the sum of what the two operands give, in
  either evaluation order.
\<close>

lemma operator_plus_correct:
  assumes "heap st lhs = Some l" and "heap st rhs = Some r"
      and "this \<noteq> lhs" and "this \<noteq> rhs"
      and "Thunk_operator_Result lhs (Thunk_operator_plus this lhs rhs st) = (Returned a, st1)"
      and "heap st1 rhs = Some r"
      and "Thunk_operator_Result rhs st1 = (Returned b, st2)"
      and "Lazy_operator_Result Left_first x e = (Returned c, e1)"
      and "Lazy_operator_Result Left_first y e1 = (Returned d, e2)"
      and "Lazy_operator_Result Right_first y e = (Returned d', e1')"
      and "Lazy_operator_Result Right_first x e1' = (Returned c', e2')"
      and "0 < n"
  shows "world (Thunk_operator_plus this lhs rhs st) = world st
       \<and> invocations (Thunk_operator_plus this lhs rhs st) = invocations st
       \<and> heap (Thunk_operator_plus this lhs rhs st) lhs = Some l
       \<and> heap (Thunk_operator_plus this lhs rhs st) rhs = Some r
       \<and> Thunk_observes n this (Thunk_operator_plus this lhs rhs st) =
           (replicate n (Returned (a + b)),
            st2\<lparr>heap := (heap st2)(this \<mapsto> Const_closure (a + b))\<rparr>)
       \<and> Lazy_operator_Result Left_first (Lazy_operator_plus x y) e = (Returned (c + d), e2)
       \<and> Lazy_operator_Result Right_first (Lazy_operator_plus x y) e = (Returned (c' + d'), e2')"
proof -
  let ?st' = "Thunk_operator_plus this lhs rhs st"
  let ?end = "st2\<lparr>heap := (heap st2)(this \<mapsto> Const_closure (a + b))\<rparr>"
  have frame: "heap ?st' lhs = Some l \<and> heap ?st' rhs = Some r"
    using assms(1-4) by (simp add: Thunk_operator_plus_eq)
  have first: "Thunk_operator_Result this ?st' = (Returned (a + b), ?end)"
    using assms(1-7) by (rule Thunk_combination_observed)
  from \<open>0 < n\<close> obtain m where n: "n = Suc m" by (cases n) auto
  have rest: "Thunk_observes m this ?end = (replicate m (Returned (a + b)), ?end)"
    by (rule Thunk_observes_cached) simp
  have obs: "Thunk_observes n this ?st' = (replicate n (Returned (a + b)), ?end)"
    by (simp add: n first rest)
  show ?thesis
    using frame obs Lazy_plus_left_first [OF assms(8,9)] Lazy_plus_right_first [OF assms(10,11)]
    by (simp only: Thunk_operator_plus_env simp_thms)
qed

lemma operator_plus_correct_example:
  "Thunk_observes 2 2
      (Thunk_operator_plus 2 0 1
         (make_thunk 1 (User (counting 4)) (make_thunk 0 (User (counting 3)) (initial_store 0)))) =
     ([Returned 7, Returned 7],
      \<lparr>world = 2, invocations = 2,
       heap = [0 \<mapsto> Const_closure 3, 1 \<mapsto> Const_closure 4, 2 \<mapsto> Const_closure 7]\<rparr>)
   \<and> world (Thunk_operator_plus 2 0 1
         (make_thunk 1 (User (counting 4)) (make_thunk 0 (User (counting 3)) (initial_store 0)))) = 0
   \<and> Lazy_operator_Result Left_first
        (Lazy_operator_plus (make_lazy (Lazy_user (counting 3))) (make_lazy (Lazy_user (counting 4))))
        (initial_env 0) = (Returned 7, \<lparr>world = 2, invocations = 2\<rparr>)
   \<and> Lazy_operator_Result Right_first
        (Lazy_operator_plus (make_lazy (Lazy_user (counting 3))) (make_lazy (Lazy_user (counting 4))))
        (initial_env 0) = (Returned 7, \<lparr>world = 2, invocations = 2\<rparr>)"
proof -
  let ?st = "make_thunk 1 (User (counting 4)) (make_thunk 0 (User (counting 3)) (initial_store 0))
               :: (nat, string, int) store"
  let ?l = "Ctor_closure 0 (User (counting 3)) :: (nat, string, int) fn"
  let ?r = "Ctor_closure 1 (User (counting 4)) :: (nat, string, int) fn"
  let ?st1 = "\<lparr>world = 1, invocations = 1,
               heap = [0 \<mapsto> Const_closure 3, 1 \<mapsto> ?r,
                       2 \<mapsto> Ctor_closure 2 (Plus_closure ?l ?r)]\<rparr> :: (nat, string, int) store"
  let ?st2 = "\<lparr>world = 2, invocations = 2,
               heap = [0 \<mapsto> Const_closure 3, 1 \<mapsto> Const_closure 4,
                       2 \<mapsto> Ctor_closure 2 (Plus_closure ?l ?r)]\<rparr> :: (nat, string, int) store"
  let ?x = "make_lazy (Lazy_user (counting 3)) :: (nat, string, int) lazy_fn"
  let ?y = "make_lazy (Lazy_user (counting 4)) :: (nat, string, int) lazy_fn"
  let ?e1 = "\<lparr>world = 1, invocations = 1\<rparr> :: nat env"
  let ?e2 = "\<lparr>world = 2, invocations = 2\<rparr> :: nat env"
  have h1: "heap ?st 0 = Some ?l" and h2: "heap ?st 1 = Some ?r"
    by (simp_all add: make_thunk_def Thunk_ctor_def initial_store_def)
  have h3: "(2::nat) \<noteq> 0" and h4: "(2::nat) \<noteq> 1" by simp_all
  have h5: "Thunk_operator_Result 0 (Thunk_operator_plus 2 0 1 ?st) = (Returned 3, ?st1)"
    by (simp add: make_thunk_def Thunk_ctor_def Thunk_operator_plus_def Thunk_operator_Result_def
          invoke_def initial_store_def counting_def) (rule ext, simp)
  have h6: "heap ?st1 1 = Some ?r" by simp
  have h7: "Thunk_operator_Result 1 ?st1 = (Returned 4, ?st2)"
    by (simp add: Thunk_operator_Result_def invoke_def counting_def) (rule ext, simp)
  have h8: "Lazy_operator_Result Left_first ?x (initial_env 0) = (Returned 3, ?e1)"
   and h9: "Lazy_operator_Result Left_first ?y ?e1 = (Returned 4, ?e2)"
   and h10: "Lazy_operator_Result Right_first ?y (initial_env 0) = (Returned 4, ?e1)"
   and h11: "Lazy_operator_Result Right_first ?x ?e1 = (Returned 3, ?e2)"
    by (simp_all add: Lazy_operator_Result_def make_lazy_def Lazy_ctor_def invoke_def
          counting_def initial_env_def)
  have h12: "(0::nat) < 2" by simp
  from operator_plus_correct [OF h1 h2 h3 h4 h5 h6 h7 h8 h9 h10 h11 h12]
  show ?thesis
    by (simp add: numeral_2_eq_2 initial_store_def make_thunk_def Thunk_ctor_def)
qed

text \<open>
  A temporary as operand: in \<^verbatim>\<open>auto s = a + b + c;\<close> the inner sum is a temporary (address
  3) that ends with the declaration, and \<^verbatim>\<open>s\<close> (address 4) holds a copy of its closure with
  the \<open>this\<close> of the temporary.  Converting \<^verbatim>\<open>s\<close> runs the computations of \<^verbatim>\<open>a\<close> and \<^verbatim>\<open>b\<close>
  and then assigns through that \<open>this\<close>, where no object lives any more.
\<close>

lemma dangling_temporary_operand:
  "fst (run [Construct 0 (User (counting 1)), Construct 1 (User (counting 2)),
             Construct 2 (User (counting 3)),
             Add 3 0 1, Add 4 3 2, Destroy 3,
             Observe 4] (initial_store 0)) = [Undefined]"
  by (simp add: scenario_simps Thunk_dtor_def counting_def)

text \<open>
  C4.  The claim: for every two wrapped values, observing their combination observes each
  operand under its own wrapper semantics and applies \<^verbatim>\<open>+\<close> to the two observed results.
  In thunk.cc the closure of \<^verbatim>\<open>operator+\<close> holds copies of the operands as they were when
  the combination was built.  With \<^verbatim>\<open>t\<close> (address 0) pending and \<^verbatim>\<open>s = t + t\<close> (address 1), the
  conversion of \<^verbatim>\<open>s\<close> runs the computation of \<^verbatim>\<open>t\<close> twice and returns 0 + 1 = 1; two
  observations of \<^verbatim>\<open>t\<close> itself run it once and give 0 and 0.
\<close>

theorem operand_computed_twice:
  "run [Construct 0 (User ticket), Add 1 0 0, Observe 1] (initial_store 0) =
     ([Returned 1],
      \<lparr>world = 2, invocations = 2,
       heap = [0 \<mapsto> Const_closure 1, 1 \<mapsto> Const_closure 1]\<rparr>)
   \<and> run [Construct 0 (User ticket), Observe 0, Observe 0] (initial_store 0) =
     ([Returned 0, Returned 0],
      \<lparr>world = 1, invocations = 1, heap = [0 \<mapsto> Const_closure 0]\<rparr>)"
  by (simp add: scenario_simps ticket_def)

section \<open>The cached value\<close>

text \<open>
  No call turns a constant closure back into a pending one: an address that holds
  \<^verbatim>\<open>[=]{ return res; }\<close> holds a closure of that form after any call.
\<close>

lemma call_keeps_cached:
  "heap st a = Some (Const_closure v) \<Longrightarrow> \<exists>v'. heap (snd (call d st)) a = Some (Const_closure v')"
proof (induction d arbitrary: st v)
  case (User f)
  then show ?case by simp
next
  case (Ctor_closure this lambda)
  from Ctor_closure.IH [OF Ctor_closure.prems] show ?case
    by (auto split: prod.split outcome.split option.split)
next
  case (Const_closure res)
  then show ?case by simp
next
  case (Plus_closure lhs rhs)
  from Plus_closure.IH(1) [OF Plus_closure.prems]
  obtain v1 where l: "heap (snd (call lhs st)) a = Some (Const_closure v1)" by blast
  show ?case
  proof (cases "call lhs st")
    case (Pair out st1)
    with l have h1: "heap st1 a = Some (Const_closure v1)" by simp
    from Plus_closure.IH(2) [OF h1]
    obtain v2 where "heap (snd (call rhs st1)) a = Some (Const_closure v2)" by blast
    with Pair h1 show ?thesis
      by (auto split: prod.split outcome.split)
  qed
qed

text \<open>
  C9.  The claim: once the slot holds \<open>Computed(v)\<close>, no later operation changes the cached
  value and every later observation returns \<open>v\<close>.  In thunk.cc the Thunk at address 0
  caches 0 at its first conversion; the combination at address 1, built while the Thunk was
  pending, holds two copies of the pending closure with the \<open>this\<close> of address 0, and its
  conversion runs the computation twice more and overwrites the cache of address 0 with 2.
\<close>

theorem cached_value_overwritten:
  "run [Construct 0 (User ticket), Add 1 0 0, Observe 0, Observe 1, Observe 0] (initial_store 0) =
     ([Returned 0, Returned 3, Returned 2],
      \<lparr>world = 3, invocations = 3,
       heap = [0 \<mapsto> Const_closure 2, 1 \<mapsto> Const_closure 3]\<rparr>)"
  by (simp add: scenario_simps ticket_def)

section \<open>The two implementations of Thunk\<close>

lemma implementations_agree_on_success:
  assumes "f (world st) = (Inr v, w)"
  shows "fst (Thunk_observes n this (Thunk_ctor this (User f) st)) =
           fst (VThunk_observes n (VThunk_ctor f) st)
       \<and> world (snd (Thunk_observes n this (Thunk_ctor this (User f) st))) =
           world (snd (snd (VThunk_observes n (VThunk_ctor f) st)))
       \<and> invocations (snd (Thunk_observes n this (Thunk_ctor this (User f) st))) =
           invocations (snd (snd (VThunk_observes n (VThunk_ctor f) st)))"
proof (cases n)
  case 0
  then show ?thesis by (simp add: Thunk_ctor_def)
next
  case (Suc m)
  let ?st' = "st\<lparr>world := w, invocations := Suc (invocations st),
                 heap := (heap st)(this \<mapsto> Const_closure v)\<rparr>"
  have "Thunk_observes m this ?st' = (replicate m (Returned v), ?st')"
    by (rule Thunk_observes_cached) simp
  then have a: "Thunk_observes n this (Thunk_ctor this (User f) st) =
                  (replicate n (Returned v), ?st')"
    using assms by (simp add: Suc Thunk_first_observation)
  have b: "VThunk_observes n (VThunk_ctor f) st =
           (replicate n (Returned v), Result v,
            st\<lparr>world := w, invocations := Suc (invocations st)\<rparr>)"
    using assms
    by (simp add: Suc VThunk_ctor_def VThunk_operator_Result_def visit_def invoke_def
          VThunk_observes_cached)
  show ?thesis by (simp add: a b)
qed

text \<open>
  C10.  The claim: on one uncopied instance the two implementations give the same results
  and the same number of invocations, also when the computation fails.  They agree when the
  first call of the computation returns (\<open>implementations_agree_on_success\<close>).  With a
  computation that raises on its first call, thunk.cc hands the exception to the caller and
  returns 42 at the second conversion; thunk\_lambda.cc ends the program at the first.
\<close>

theorem implementations_differ_on_failure:
  "fst (Thunk_observes 2 0 (Thunk_ctor 0 (User (flaky 1 42)) (initial_store 0))) =
     [Thrown ''failure'', Returned 42]
   \<and> fst (VThunk_observes 2 (VThunk_ctor (flaky 1 42)) (initial_env 0)) = [Terminated]"
  by (simp add: scenario_simps flaky_def numeral_2_eq_2 VThunk_ctor_def
        VThunk_operator_Result_def visit_def initial_env_def)

section \<open>Conversions\<close>



section \<open>Construction\<close>

text \<open>
  C6.  The constructor of thunk.cc's Thunk and \<^verbatim>\<open>make_thunk\<close> write the new object into
  the store and leave the world and the invocation counter alone; the computation is
  entered at the first conversion, in the world of that moment.  The constructors of the
  variant-based Thunk and of Lazy, and \<^verbatim>\<open>make_lazy\<close>, store the callable and have no access
  to the world; the first conversion leaves the world and the counter as one call of the
  computation does.
\<close>

theorem construction_is_silent:
  "world (Thunk_ctor this lambda st) = world st
   \<and> invocations (Thunk_ctor this lambda st) = invocations st
   \<and> world (make_thunk this lambda st) = world st
   \<and> invocations (make_thunk this lambda st) = invocations st
   \<and> heap (make_thunk this lambda st) = (heap st)(this \<mapsto> Ctor_closure this lambda)
   \<and> fst (Thunk_operator_Result this (make_thunk this (User f) st)) = fst (invoke f st)
   \<and> world (snd (Thunk_operator_Result this (make_thunk this (User f) st))) =
       world (snd (invoke f st))
   \<and> invocations (snd (Thunk_operator_Result this (make_thunk this (User f) st))) =
       Suc (invocations st)
   \<and> world (snd (Thunk_operator_T conv this (make_thunk this (User f) st))) =
       world (snd (invoke f st))
   \<and> VThunk_ctor f = Lambda f
   \<and> snd (snd (VThunk_operator_Result (VThunk_ctor f) e)) = snd (invoke f e)
   \<and> make_lazy (Lazy_user f) = Lazy_user f
   \<and> Lazy_ctor (Lazy_user f) = Lazy_user f
   \<and> Lazy_operator_Result ord (make_lazy (Lazy_user f)) e = invoke f e
   \<and> invocations (snd (invoke f e)) = Suc (invocations e)
   \<and> world (snd (invoke f e)) = snd (f (world e))"
  by (simp add: Thunk_ctor_def make_thunk_def Thunk_operator_Result_def Thunk_operator_T_def
        VThunk_ctor_def
        VThunk_operator_Result_def visit_def make_lazy_def Lazy_ctor_def
        Lazy_operator_Result_def invoke_def split: prod.split sum.split)

section \<open>Recomputation\<close>

lemma invoke_not_halted: "\<not> halted (fst (invoke f e))"
  by (simp add: invoke_def split: prod.split sum.split)

lemma invoke_env:
  "snd (invoke f e) = e\<lparr>world := snd (f (world e)), invocations := Suc (invocations e)\<rparr>"
  by (simp add: invoke_def split: prod.split sum.split)

lemma Lazy_observes_user:
  "snd (Lazy_observes ord n (Lazy_user f) e) =
     e\<lparr>world := ((\<lambda>w. snd (f w)) ^^ n) (world e), invocations := invocations e + n\<rparr>
   \<and> length (fst (Lazy_observes ord n (Lazy_user f) e)) = n"
proof (induction n arbitrary: e)
  case 0
  show ?case by simp
next
  case (Suc n)
  obtain out e1 where i: "invoke f e = (out, e1)" by (cases "invoke f e")
  have nh: "\<not> halted out" using invoke_not_halted [of f e] by (simp add: i)
  have e1: "e1 = e\<lparr>world := snd (f (world e)), invocations := Suc (invocations e)\<rparr>"
    using invoke_env [of f e] by (simp add: i)
  obtain outs e2 where r: "Lazy_observes ord n (Lazy_user f) e1 = (outs, e2)"
    by (cases "Lazy_observes ord n (Lazy_user f) e1")
  from Suc.IH [of e1] have
    e2: "e2 = e1\<lparr>world := ((\<lambda>w. snd (f w)) ^^ n) (world e1), invocations := invocations e1 + n\<rparr>"
    and len: "length outs = n"
    by (simp_all add: r)
  have "Lazy_observes ord (Suc n) (Lazy_user f) e = (out # outs, e2)"
    by (simp add: Lazy_operator_Result_def i nh r)
  then show ?case
    by (simp add: e2 e1 len funpow_swap1 [of "\<lambda>w. snd (f w)"])
qed

lemma conversion_env:
  "snd (Lazy_operator_T ord conv d e) = snd (lazy_call ord d e)"
  "snd (LazyF_operator_Result ord to_result d e) = snd (lazy_call ord d e)"
  "snd (LazyF_operator_T ord to_result conv d e) = snd (lazy_call ord d e)"
  by (simp_all add: Lazy_operator_T_def LazyF_operator_Result_def LazyF_operator_T_def
        split: prod.split)

text \<open>
  C7.  \<open>n\<close> conversions of a Lazy that wraps a caller-supplied computation \<open>f\<close> enter \<open>f\<close>
  \<open>n\<close> times: the invocation counter grows by \<open>n\<close>, the world is the \<open>n\<close>-fold effect of
  \<open>f\<close>, and there are \<open>n\<close> outcomes.  Each conversion, to \<^verbatim>\<open>Result\<close> or to another type, in
  lazy.cc and in lazy\_functionless.cc, is one call of \<open>f\<close>.  A conversion returns an
  outcome and a state only: the Lazy itself is the same value at every conversion.
\<close>

theorem recompute_every_time:
  "invocations (snd (Lazy_observes ord n (make_lazy (Lazy_user f)) e)) = invocations e + n
   \<and> world (snd (Lazy_observes ord n (make_lazy (Lazy_user f)) e)) =
       ((\<lambda>w. snd (f w)) ^^ n) (world e)
   \<and> length (fst (Lazy_observes ord n (make_lazy (Lazy_user f)) e)) = n
   \<and> Lazy_operator_Result ord (make_lazy (Lazy_user f)) e = invoke f e
   \<and> snd (Lazy_operator_T ord conv (make_lazy (Lazy_user f)) e) = snd (invoke f e)
   \<and> snd (LazyF_operator_Result ord to_result (make_lazy (Lazy_user f)) e) = snd (invoke f e)
   \<and> snd (LazyF_operator_T ord to_result conv (make_lazy (Lazy_user f)) e) = snd (invoke f e)
   \<and> invocations (snd (invoke f e)) = Suc (invocations e)"
  by (simp add: make_lazy_def Lazy_ctor_def Lazy_observes_user Lazy_operator_Result_def
        conversion_env invoke_env)

lemma recompute_example:
  "Lazy_observes ord 3 (make_lazy (Lazy_user (counting 42))) (initial_env 0) =
     ([Returned 42, Returned 42, Returned 42], \<lparr>world = 3, invocations = 3\<rparr>)"
  by (simp add: make_lazy_def Lazy_ctor_def Lazy_operator_Result_def invoke_def counting_def
        initial_env_def numeral_3_eq_3)

section \<open>Order of observation in a combination\<close>

text \<open>
  C8, as stated: in every combination, of either kind, the left operand is observed
  strictly before the right one.  For a combination of two Lazy values the two conversions
  are the operands of one \<^verbatim>\<open>+\<close>; where the implementation evaluates the right operand
  first, the right computation writes before the left one.
\<close>

theorem right_operand_observed_first:
  "Lazy_operator_Result Right_first
     (Lazy_operator_plus (make_lazy (Lazy_user (printing ''left'' 3)))
                         (make_lazy (Lazy_user (printing ''right'' 4))))
     (initial_env []) =
   (Returned 7, \<lparr>world = [''right'', ''left''], invocations = 2\<rparr>)"
  by (simp add: Lazy_operator_Result_def Lazy_operator_plus_def make_lazy_def Lazy_ctor_def
        invoke_def printing_def initial_env_def)

text \<open>
  C8, amended.  The closure of thunk.cc's \<^verbatim>\<open>operator+\<close> converts the left operand in one
  statement and the right operand in the next: the right operand runs in the state the left
  one left, the result is their sum, and when the left operand raises the right one is not
  run.  The closure of \<^verbatim>\<open>operator+\<close> for Lazy converts both operands and returns their sum:
  left operand first under one evaluation order, right operand first under the other.
\<close>

theorem observation_order:
  "(call l st = (Returned a, st1) \<longrightarrow> call r st1 = (Returned b, st2) \<longrightarrow>
      call (Plus_closure l r) st = (Returned (a + b), st2))
   \<and> (call l st = (Thrown x, st1) \<longrightarrow> call (Plus_closure l r) st = (Thrown x, st1))
   \<and> (lazy_call Left_first p e = (Returned c, e1) \<longrightarrow> lazy_call Left_first q e1 = (Returned d, e2) \<longrightarrow>
      lazy_call Left_first (Lazy_plus p q) e = (Returned (c + d), e2))
   \<and> (lazy_call Right_first q e = (Returned d, e1) \<longrightarrow> lazy_call Right_first p e1 = (Returned c, e2) \<longrightarrow>
      lazy_call Right_first (Lazy_plus p q) e = (Returned (c + d), e2))"
  by simp

theorem observation_order_witness:
  "call (Plus_closure (User (printing ''left'' 3)) (User (printing ''right'' 4))) (initial_store []) =
     (Returned 7, \<lparr>world = [''left'', ''right''], invocations = 2, heap = Map.empty\<rparr>)
   \<and> call (Plus_closure (User (failing ''left'')) (User (printing ''right'' 4))) (initial_store []) =
     (Thrown ''left'', \<lparr>world = [''left''], invocations = 1, heap = Map.empty\<rparr>)
   \<and> lazy_call Left_first (Lazy_plus (Lazy_user (printing ''left'' 3)) (Lazy_user (printing ''right'' 4)))
        (initial_env []) =
     (Returned 7, \<lparr>world = [''left'', ''right''], invocations = 2\<rparr>)
   \<and> lazy_call Right_first (Lazy_plus (Lazy_user (printing ''left'' 3)) (Lazy_user (printing ''right'' 4)))
        (initial_env []) =
     (Returned 7, \<lparr>world = [''right'', ''left''], invocations = 2\<rparr>)"
proof -
  let ?L = "printing ''left'' 3" and ?R = "printing ''right'' 4"
  let ?s0 = "initial_store [] :: (string list, string, int) store"
  let ?e0 = "initial_env [] :: string list env"
  have t1: "call (User ?L) ?s0 =
              (Returned 3, \<lparr>world = [''left''], invocations = 1, heap = Map.empty\<rparr>)"
    and t2: "call (User ?R) \<lparr>world = [''left''], invocations = 1, heap = Map.empty\<rparr> =
              (Returned 4, \<lparr>world = [''left'', ''right''], invocations = 2, heap = Map.empty\<rparr>)"
    and t3: "call (User (failing ''left'')) ?s0 =
              (Thrown ''left'', \<lparr>world = [''left''], invocations = 1, heap = Map.empty\<rparr>)"
    by (simp_all add: invoke_def printing_def failing_def initial_store_def)
  have l1: "lazy_call Left_first (Lazy_user ?L) ?e0 =
              (Returned 3, \<lparr>world = [''left''], invocations = 1\<rparr>)"
    and l2: "lazy_call Left_first (Lazy_user ?R) \<lparr>world = [''left''], invocations = 1\<rparr> =
              (Returned 4, \<lparr>world = [''left'', ''right''], invocations = 2\<rparr>)"
    and r1: "lazy_call Right_first (Lazy_user ?R) ?e0 =
              (Returned 4, \<lparr>world = [''right''], invocations = 1\<rparr>)"
    and r2: "lazy_call Right_first (Lazy_user ?L) \<lparr>world = [''right''], invocations = 1\<rparr> =
              (Returned 3, \<lparr>world = [''right'', ''left''], invocations = 2\<rparr>)"
    by (simp_all add: invoke_def printing_def initial_env_def)
  note a = observation_order [where l = "User ?L" and r = "User ?R" and st = ?s0
      and p = "Lazy_user ?L" and q = "Lazy_user ?R" and e = ?e0,
      THEN conjunct1, rule_format, OF t1 t2]
  note b = observation_order [where l = "User (failing ''left'')" and r = "User ?R" and st = ?s0
      and p = "Lazy_user ?L" and q = "Lazy_user ?R" and e = ?e0,
      THEN conjunct2, THEN conjunct1, rule_format, OF t3]
  note c = observation_order [where l = "User ?L" and r = "User ?R" and st = ?s0
      and p = "Lazy_user ?L" and q = "Lazy_user ?R" and e = ?e0,
      THEN conjunct2, THEN conjunct2, THEN conjunct1, rule_format, OF l1 l2]
  note d = observation_order [where l = "User ?L" and r = "User ?R" and st = ?s0
      and p = "Lazy_user ?L" and q = "Lazy_user ?R" and e = ?e0,
      THEN conjunct2, THEN conjunct2, THEN conjunct2, rule_format, OF r1 r2]
  from a b c d show ?thesis by simp
qed

end
